theory Spec2Isabelle
  imports Complex_Main
begin

section \<open>Values thrown and returned by the remote store client\<close>

text \<open>
  A JavaScript \<open>throw\<close> carries any value. The client and the handlers only ever ask
  whether the value is an instance of \<open>Error\<close> and, if so, read its message.
\<close>

datatype Thrown =
    ErrorInstance string   \<comment> \<open>an \<open>Error\<close> (or subclass) object with this message\<close>
  | NonError               \<comment> \<open>any thrown value that is not an \<open>Error\<close> instance\<close>

text \<open>\<open>OkResponse\<close> of api.ts: \<open>{ok: boolean}\<close>.\<close>

type_synonym OkResponse = bool

section \<open>Data model of the saved recipes (api.ts)\<close>

text \<open>
  Field names carry a prefix per interface, since the interfaces of api.ts share their
  field names (and \<open>id\<close>, \<open>image\<close> are constants of HOL): \<open>r_\<close> for the argument of
  \<open>handleSaveRecipe\<close> (\<open>Recipe | AIRecipe\<close>), \<open>sd_\<close> for the \<open>saveData\<close> literal,
  \<open>sr_\<close> for \<open>SavedRecipe\<close>.

  An optional key is an \<open>option\<close>: \<open>None\<close> is a key that is absent (or holds
  \<open>undefined\<close>). For \<open>is_ai_generated\<close> the source tests the presence of the key with
  the \<open>in\<close> operator, so \<open>None\<close> is exactly "key absent" there and \<open>Some b\<close> is
  "key present with value b".
\<close>

type_synonym Ingredient = "string \<times> string"   \<comment> \<open>\<open>{name, measure}\<close>\<close>

record RecipeRecord =
  r_id :: string
  r_title :: string
  r_image :: string
  r_cuisine :: string
  r_meal_type :: string
  r_tags :: "string list"
  r_ingredients :: "Ingredient list"
  r_instructions :: "string list"
  r_time_minutes :: "int option"
  r_servings :: "int option"
  r_difficulty :: "string option"
  r_nutrition_summary :: "string option"
  r_is_ai_generated :: "bool option"

record SaveData =
  sd_title :: string
  sd_image :: string
  sd_source :: string
  sd_cuisine :: string
  sd_meal_type :: string
  sd_tags :: "string list"
  sd_ingredients :: "Ingredient list"
  sd_instructions :: "string list"
  sd_time_minutes :: "int option"
  sd_servings :: "int option"
  sd_difficulty :: "string option"
  sd_nutrition_summary :: "string option"
  sd_is_ai_generated :: bool

record SavedRecipe =
  sr_id :: string
  sr_recipe_id :: string
  sr_title :: string
  sr_image :: "string option"
  sr_source :: string
  sr_created_at :: string
  sr_cuisine :: "string option"
  sr_meal_type :: "string option"
  sr_tags :: "string list"
  sr_ingredients :: "Ingredient list"
  sr_instructions :: "string list"
  sr_time_minutes :: "int option"
  sr_servings :: "int option"
  sr_difficulty :: "string option"
  sr_nutrition_summary :: "string option"
  sr_is_ai_generated :: bool

section \<open>Data model of the pantry (App.tsx)\<close>

text \<open>\<open>PantryItem\<close> of App.tsx, lines 218-223.\<close>

record PantryItem =
  p_name :: string
  p_quantity :: string
  p_expiryDate :: "string option"
  p_addedAt :: string

text \<open>
  Modelled from the spec: \<open>PantryItemOut\<close> and \<open>PantryItemIn\<close> are imported from api.ts,
  but the api.ts at hand does not declare them (nor \<open>getPantry\<close>, \<open>upsertPantryItem\<close>,
  \<open>deletePantryItem\<close>). Their fields are the ones App.tsx reads and writes
  (\<open>mapPantryOut\<close>, the two payload literals) and the ones of the spec's interface table:
  \<open>{name, quantity, expiry_date?}\<close> in, the same plus \<open>added_at\<close> out.
  In \<open>PantryItemOut\<close>, \<open>None\<close> is \<open>null\<close> or \<open>undefined\<close>. In \<open>PantryItemIn\<close>,
  \<open>pi_quantity = None\<close> is \<open>undefined\<close>, and the expiry distinguishes an absent key,
  \<open>null\<close> and a string.
\<close>

record PantryItemOut =
  po_name :: string
  po_quantity :: "string option"
  po_expiry_date :: "string option"
  po_added_at :: string

datatype ExpiryField = ExpiryAbsent | ExpiryNull | ExpiryString string

record PantryItemIn =
  pi_name :: string
  pi_quantity :: "string option"
  pi_expiry_date :: ExpiryField

text \<open>
  \<open>Partial<PantryItem>\<close>: every key may be absent; a key that is present may still hold
  \<open>undefined\<close> (\<open>None\<close>), which the object spread copies like any other value.
\<close>

datatype 'a Key = KeyAbsent | KeyPresent 'a

record PantryUpdates =
  u_name :: "string option Key"
  u_quantity :: "string option Key"
  u_expiryDate :: "string option Key"
  u_addedAt :: "string option Key"

section \<open>Application state (App.tsx, lines 225-232)\<close>

datatype Tab = TabAuth | TabProfile | TabRecipes | TabIngredients | TabAbout | TabPantry

text \<open>The calls the handlers make on \<open>api\<close>, with their arguments.\<close>

datatype ApiCall =
    GetProfile
  | GetSavedRecipes
  | SaveRecipe string SaveData
  | DeleteSavedRecipe string
  | GetPantry
  | UpsertPantryItem PantryItemIn
  | DeletePantryItem string

text \<open>
  The \<open>useState\<close> cells of \<open>App\<close>. \<open>apiCalls\<close> is not a cell of the source: it records,
  in order, every call a handler has made on \<open>api\<close>, so that "this handler sends this
  payload" and "this handler makes no remote call" are statements about the state.
  \<open>savedRecipeIds\<close> is a JavaScript \<open>Set<string>\<close>, used for membership only.
\<close>

record AppState =
  activeTab :: Tab
  isLoggedIn :: bool
  isLoading :: bool
  savedRecipes :: "SavedRecipe list"
  savedRecipeIds :: "string set"
  searchIngredients :: string
  pantry :: "PantryItem list"
  apiCalls :: "ApiCall list"

definition initialState :: AppState where
  "initialState =
     \<lparr>activeTab = TabAuth, isLoggedIn = False, isLoading = True, savedRecipes = [],
      savedRecipeIds = {}, searchIngredients = [], pantry = [], apiCalls = []\<rparr>"

section \<open>Decimal text of a number\<close>

text \<open>
  \<open>String(n)\<close> for a natural number, as the template literal of line 302 needs it.
  \<open>digitChar\<close> is only applied to a number below ten.
\<close>

definition digitChar :: "nat \<Rightarrow> char" where
  "digitChar d = ''0123456789'' ! d"

function natToString :: "nat \<Rightarrow> string" where
  "natToString n =
     (if n < 10 then [digitChar n] else natToString (n div 10) @ [digitChar (n mod 10)])"
  by pat_completeness auto
termination
  by (relation "measure (\<lambda>n. n)") auto

declare natToString.simps [simp del]

section \<open>Saved recipes: hydrate, save, unsave (App.tsx, lines 265-338)\<close>

text \<open>
  Every handler awaits one call on \<open>api\<close>. The outcome of that call is an argument of the
  model: \<open>Inl e\<close> when the promise rejects with \<open>e\<close>, \<open>Inr v\<close> when it resolves to \<open>v\<close>.
  A handler returns the resulting state, and with it \<open>Inl e\<close> when it throws \<open>e\<close>.
\<close>

definition fetchSavedRecipes :: "Thrown + SavedRecipe list \<Rightarrow> AppState \<Rightarrow> AppState" where
  "fetchSavedRecipes response s =
     (let s1 = s\<lparr>apiCalls := apiCalls s @ [GetSavedRecipes]\<rparr> in
      case response of
        Inr items \<Rightarrow>
          s1\<lparr>savedRecipes := items, savedRecipeIds := set (map sr_recipe_id items)\<rparr>
      | Inl error \<Rightarrow> s1)"

text \<open>Lines 283-297: the \<open>saveData\<close> literal.\<close>

definition saveData :: "RecipeRecord \<Rightarrow> SaveData" where
  "saveData recipe =
     \<lparr>sd_title = r_title recipe,
      sd_image = r_image recipe,
      sd_source = (if r_is_ai_generated recipe \<noteq> None then ''AI'' else ''TheMealDB''),
      sd_cuisine = r_cuisine recipe,
      sd_meal_type = r_meal_type recipe,
      sd_tags = r_tags recipe,
      sd_ingredients = r_ingredients recipe,
      sd_instructions = r_instructions recipe,
      sd_time_minutes = r_time_minutes recipe,
      sd_servings = r_servings recipe,
      sd_difficulty = r_difficulty recipe,
      sd_nutrition_summary = r_nutrition_summary recipe,
      sd_is_ai_generated =
        (case r_is_ai_generated recipe of Some b \<Rightarrow> b | None \<Rightarrow> False)\<rparr>"

text \<open>
  Lines 301-318: the record added locally. The clock is read twice: \<open>Date.now()\<close>
  (milliseconds) and \<open>new Date().toISOString()\<close>; both readings are arguments.
\<close>

record Clock =
  dateNow :: nat
  isoNow :: string

definition newSavedRecipe :: "Clock \<Rightarrow> RecipeRecord \<Rightarrow> SavedRecipe" where
  "newSavedRecipe clock recipe =
     \<lparr>sr_id = ''temp_'' @ natToString (dateNow clock),
      sr_recipe_id = r_id recipe,
      sr_title = r_title recipe,
      sr_image = Some (r_image recipe),
      sr_source = sd_source (saveData recipe),
      sr_created_at = isoNow clock,
      sr_cuisine = Some (r_cuisine recipe),
      sr_meal_type = Some (r_meal_type recipe),
      sr_tags = r_tags recipe,
      sr_ingredients = r_ingredients recipe,
      sr_instructions = r_instructions recipe,
      sr_time_minutes = r_time_minutes recipe,
      sr_servings = r_servings recipe,
      sr_difficulty = r_difficulty recipe,
      sr_nutrition_summary = r_nutrition_summary recipe,
      sr_is_ai_generated =
        (case r_is_ai_generated recipe of Some b \<Rightarrow> b | None \<Rightarrow> False)\<rparr>"

definition handleSaveRecipe ::
  "Clock \<Rightarrow> RecipeRecord \<Rightarrow> Thrown + OkResponse \<Rightarrow> AppState \<Rightarrow> (Thrown + unit) \<times> AppState"
where
  "handleSaveRecipe clock recipe response s =
     (let s1 = s\<lparr>apiCalls := apiCalls s @ [SaveRecipe (r_id recipe) (saveData recipe)]\<rparr> in
      case response of
        Inl error \<Rightarrow> (Inl error, s1)
      | Inr _ \<Rightarrow>
          (Inr (),
           s1\<lparr>savedRecipes := newSavedRecipe clock recipe # savedRecipes s1,
              savedRecipeIds := insert (r_id recipe) (savedRecipeIds s1)\<rparr>))"

definition handleUnsaveRecipe ::
  "string \<Rightarrow> Thrown + OkResponse \<Rightarrow> AppState \<Rightarrow> (Thrown + unit) \<times> AppState"
where
  "handleUnsaveRecipe recipeId response s =
     (let s1 = s\<lparr>apiCalls := apiCalls s @ [DeleteSavedRecipe recipeId]\<rparr> in
      case response of
        Inl error \<Rightarrow> (Inl error, s1)
      | Inr _ \<Rightarrow>
          (Inr (),
           s1\<lparr>savedRecipes := filter (\<lambda>recipe. sr_recipe_id recipe \<noteq> recipeId) (savedRecipes s1),
              savedRecipeIds := savedRecipeIds s1 - {recipeId}\<rparr>))"

text \<open>
  Modelled from the spec: \<open>isSaved\<close> is the membership test on the saved-id set
  (\<open>savedRecipeIds.has(id)\<close>) of the Recipes component, which receives the set as a prop
  (line 446); the component itself is not among the sources at hand.
\<close>

definition isSaved :: "string \<Rightarrow> AppState \<Rightarrow> bool" where
  "isSaved recipeId s = (recipeId \<in> savedRecipeIds s)"

section \<open>Session: login, logout and the effect on \<open>isLoggedIn\<close> (lines 253-279, 350-353)\<close>

text \<open>Lines 360-365.\<close>

definition mapPantryOut :: "PantryItemOut \<Rightarrow> PantryItem" where
  "mapPantryOut p =
     \<lparr>p_name = po_name p,
      p_quantity = (case po_quantity p of None \<Rightarrow> [] | Some q \<Rightarrow> if q = [] then [] else q),
      p_expiryDate =
        (case po_expiry_date p of
           None \<Rightarrow> None
         | Some d \<Rightarrow> if d = [] then None else Some (take 10 d)),
      p_addedAt = po_added_at p\<rparr>"

definition fetchPantry :: "Thrown + PantryItemOut list \<Rightarrow> AppState \<Rightarrow> AppState" where
  "fetchPantry res s =
     (let s1 = s\<lparr>apiCalls := apiCalls s @ [GetPantry]\<rparr> in
      case res of
        Inr items \<Rightarrow> s1\<lparr>pantry := map mapPantryOut items\<rparr>
      | Inl e \<Rightarrow> s1)"

text \<open>
  The effect of lines 254-263 runs after a render in which \<open>isLoggedIn\<close> has changed
  (its dependency list is \<open>[isLoggedIn]\<close>). \<open>loggedOutBranch\<close> is its \<open>else\<close> branch.
  It also runs after the first render, where that branch leaves the collections of
  \<open>initialState\<close>, all empty, as they are.
\<close>

definition loggedOutBranch :: "AppState \<Rightarrow> AppState" where
  "loggedOutBranch s = s\<lparr>savedRecipes := [], savedRecipeIds := {}, pantry := []\<rparr>"

definition isLoggedInEffect ::
  "Thrown + SavedRecipe list \<Rightarrow> Thrown + PantryItemOut list \<Rightarrow> AppState \<Rightarrow> AppState"
where
  "isLoggedInEffect savedResponse pantryResponse s =
     (if isLoggedIn s then fetchPantry pantryResponse (fetchSavedRecipes savedResponse s)
      else loggedOutBranch s)"

text \<open>
  \<open>handleLogin\<close> and \<open>handleLogout\<close> set \<open>isLoggedIn\<close> and \<open>activeTab\<close>. Setting a
  state cell to the value it already has schedules no effect, so the effect runs only
  when the flag changes; after \<open>setIsLoggedIn(false)\<close> it takes its \<open>else\<close> branch.
\<close>

definition handleLogin ::
  "Thrown + SavedRecipe list \<Rightarrow> Thrown + PantryItemOut list \<Rightarrow> AppState \<Rightarrow> AppState"
where
  "handleLogin savedResponse pantryResponse s =
     (let s1 = s\<lparr>isLoggedIn := True, activeTab := TabProfile\<rparr> in
      if isLoggedIn s then s1 else isLoggedInEffect savedResponse pantryResponse s1)"

definition handleLogout :: "AppState \<Rightarrow> AppState" where
  "handleLogout s =
     (let s1 = s\<lparr>isLoggedIn := False, activeTab := TabAuth\<rparr> in
      if isLoggedIn s then loggedOutBranch s1 else s1)"

section \<open>Pantry: add, update, remove (lines 376-415)\<close>

text \<open>
  \<open>String.prototype.toLowerCase\<close> is an argument, \<open>toLowerCase\<close>: its case mapping
  covers all of Unicode and is the engine's.
\<close>

definition addToPantry ::
  "(string \<Rightarrow> string) \<Rightarrow> string \<Rightarrow> Thrown + PantryItemOut \<Rightarrow> AppState \<Rightarrow>
   (Thrown + unit) \<times> AppState"
where
  "addToPantry toLowerCase name response s =
     (let payload = \<lparr>pi_name = name, pi_quantity = Some [], pi_expiry_date = ExpiryAbsent\<rparr>;
          s1 = s\<lparr>apiCalls := apiCalls s @ [UpsertPantryItem payload]\<rparr> in
      case response of
        Inl e \<Rightarrow> (Inl e, s1)
      | Inr saved \<Rightarrow>
          (let others = filter (\<lambda>i. toLowerCase (p_name i) \<noteq> toLowerCase name) (pantry s1)
           in (Inr (), s1\<lparr>pantry := mapPantryOut saved # others\<rparr>)))"

text \<open>
  Line 393: \<open>{ ...current, ...updates }\<close>. \<open>current\<close> is the first entry with exactly
  this name, or \<open>undefined\<close>, whose spread contributes nothing. A key of \<open>updates\<close> that
  is present wins, whatever it holds. Each field of the result may be \<open>undefined\<close>.
\<close>

record Merged =
  m_name :: "string option"
  m_quantity :: "string option"
  m_expiryDate :: "string option"
  m_addedAt :: "string option"

definition spreadField :: "'a option \<Rightarrow> 'a option Key \<Rightarrow> 'a option" where
  "spreadField fromCurrent fromUpdates =
     (case fromUpdates of KeyPresent v \<Rightarrow> v | KeyAbsent \<Rightarrow> fromCurrent)"

definition mergeItem :: "PantryItem option \<Rightarrow> PantryUpdates \<Rightarrow> Merged" where
  "mergeItem current updates =
     \<lparr>m_name = spreadField (map_option p_name current) (u_name updates),
      m_quantity = spreadField (map_option p_quantity current) (u_quantity updates),
      m_expiryDate = spreadField (Option.bind current p_expiryDate) (u_expiryDate updates),
      m_addedAt = spreadField (map_option p_addedAt current) (u_addedAt updates)\<rparr>"

text \<open>
  Lines 392-398. \<open>new Date(d).toISOString()\<close> is an argument, \<open>toISOString\<close>: it
  returns the timestamp, or throws (a \<open>RangeError\<close>) when \<open>d\<close> is not a date. It is
  applied only to a truthy (non-empty) \<open>expiryDate\<close>.
\<close>

definition updatePayload ::
  "(string \<Rightarrow> Thrown + string) \<Rightarrow> PantryItem list \<Rightarrow> string \<Rightarrow> PantryUpdates \<Rightarrow>
   Thrown + PantryItemIn"
where
  "updatePayload toISOString items name updates =
     (let current = find (\<lambda>i. p_name i = name) items;
          merged = mergeItem current updates in
      case m_expiryDate merged of
        None \<Rightarrow>
          Inr \<lparr>pi_name = name, pi_quantity = m_quantity merged, pi_expiry_date = ExpiryNull\<rparr>
      | Some d \<Rightarrow>
          if d = [] then
            Inr \<lparr>pi_name = name, pi_quantity = m_quantity merged, pi_expiry_date = ExpiryNull\<rparr>
          else
            (case toISOString d of
               Inl e \<Rightarrow> Inl e
             | Inr stamp \<Rightarrow>
                 Inr \<lparr>pi_name = name, pi_quantity = m_quantity merged,
                      pi_expiry_date = ExpiryString stamp\<rparr>))"

definition updatePantryItem ::
  "(string \<Rightarrow> Thrown + string) \<Rightarrow> string \<Rightarrow> PantryUpdates \<Rightarrow> Thrown + PantryItemOut \<Rightarrow>
   AppState \<Rightarrow> (Thrown + unit) \<times> AppState"
where
  "updatePantryItem toISOString name updates response s =
     (case updatePayload toISOString (pantry s) name updates of
        Inl e \<Rightarrow> (Inl e, s)
      | Inr payload \<Rightarrow>
          (let s1 = s\<lparr>apiCalls := apiCalls s @ [UpsertPantryItem payload]\<rparr> in
           case response of
             Inl e \<Rightarrow> (Inl e, s1)
           | Inr saved \<Rightarrow>
               (Inr (),
                s1\<lparr>pantry :=
                     map (\<lambda>i. if p_name i = name then mapPantryOut saved else i) (pantry s1)\<rparr>)))"

definition removePantryItem ::
  "string \<Rightarrow> Thrown + OkResponse \<Rightarrow> AppState \<Rightarrow> (Thrown + unit) \<times> AppState"
where
  "removePantryItem name response s =
     (let s1 = s\<lparr>apiCalls := apiCalls s @ [DeletePantryItem name]\<rparr> in
      case response of
        Inl e \<Rightarrow> (Inl e, s1)
      | Inr _ \<Rightarrow> (Inr (), s1\<lparr>pantry := filter (\<lambda>i. p_name i \<noteq> name) (pantry s1)\<rparr>))"

section \<open>Startup check, tabs and the ingredient search text (lines 234-251, 340-357)\<close>

text \<open>
  \<open>checkAuth\<close> reads the stored token (an argument: \<open>None\<close> when \<open>localStorage\<close> has
  none) and, when there is one, awaits \<open>api.getProfile()\<close>. The model does not follow the
  contents of \<open>localStorage\<close>, so the removal of a rejected token leaves no trace.
\<close>

definition checkAuth ::
  "string option \<Rightarrow> Thrown + unit \<Rightarrow> Thrown + SavedRecipe list \<Rightarrow>
   Thrown + PantryItemOut list \<Rightarrow> AppState \<Rightarrow> AppState"
where
  "checkAuth token profile savedResponse pantryResponse s =
     (case token of
        None \<Rightarrow> s\<lparr>isLoading := False\<rparr>
      | Some t \<Rightarrow>
          if t = [] then s\<lparr>isLoading := False\<rparr>
          else
            (let s1 = s\<lparr>apiCalls := apiCalls s @ [GetProfile]\<rparr> in
             case profile of
               Inl e \<Rightarrow> s1\<lparr>isLoading := False\<rparr>
             | Inr _ \<Rightarrow>
                 (let s2 = s1\<lparr>isLoggedIn := True, activeTab := TabProfile, isLoading := False\<rparr>
                  in if isLoggedIn s1 then s2
                     else isLoggedInEffect savedResponse pantryResponse s2)))"

definition handleTabChange :: "Tab \<Rightarrow> AppState \<Rightarrow> AppState" where
  "handleTabChange tab s =
     (if \<not> isLoggedIn s \<and> \<not> List.member [TabAuth, TabRecipes, TabAbout] tab then s
      else if tab = TabAuth \<and> isLoggedIn s then s
      else s\<lparr>activeTab := tab\<rparr>)"

text \<open>\<open>Array.prototype.join\<close> with a separator.\<close>

fun joinWith :: "string \<Rightarrow> string list \<Rightarrow> string" where
  "joinWith sep [] = []"
| "joinWith sep [x] = x"
| "joinWith sep (x # y # rest) = x @ sep @ joinWith sep (y # rest)"

definition updateIngredientsFromSelection :: "string list \<Rightarrow> AppState \<Rightarrow> AppState" where
  "updateIngredientsFromSelection list s = s\<lparr>searchIngredients := joinWith '', '' list\<rparr>"

section \<open>Runs of the application\<close>

text \<open>
  One event per handler of \<open>App\<close>, with the arguments of the call and the outcome of
  each remote call it awaits; the two functions of the engine, \<open>toLowerCase\<close> and
  \<open>toISOString\<close>, are the same throughout a run. The spec's concurrency model has the handlers run one
  after the other, so a run is a list of events applied in order, and the fetches that
  the effect on \<open>isLoggedIn\<close> starts complete within the event that started them.
\<close>

datatype Event =
    CheckAuth "string option" "Thrown + unit" "Thrown + SavedRecipe list"
      "Thrown + PantryItemOut list"
  | Login "Thrown + SavedRecipe list" "Thrown + PantryItemOut list"
  | Logout
  | TabChange Tab
  | SelectIngredients "string list"
  | SetSearchIngredients string
  | Save Clock RecipeRecord "Thrown + OkResponse"
  | Unsave string "Thrown + OkResponse"
  | AddToPantry string "Thrown + PantryItemOut"
  | UpdatePantryItem string PantryUpdates "Thrown + PantryItemOut"
  | RemovePantryItem string "Thrown + OkResponse"

fun step ::
  "(string \<Rightarrow> string) \<Rightarrow> (string \<Rightarrow> Thrown + string) \<Rightarrow> AppState \<Rightarrow> Event \<Rightarrow> AppState"
where
  "step toLowerCase toISOString s (CheckAuth token profile savedResponse pantryResponse) =
     checkAuth token profile savedResponse pantryResponse s"
| "step toLowerCase toISOString s (Login savedResponse pantryResponse) =
     handleLogin savedResponse pantryResponse s"
| "step toLowerCase toISOString s Logout = handleLogout s"
| "step toLowerCase toISOString s (TabChange tab) = handleTabChange tab s"
| "step toLowerCase toISOString s (SelectIngredients list) = updateIngredientsFromSelection list s"
| "step toLowerCase toISOString s (SetSearchIngredients text) = s\<lparr>searchIngredients := text\<rparr>"
| "step toLowerCase toISOString s (Save clock recipe response) =
     snd (handleSaveRecipe clock recipe response s)"
| "step toLowerCase toISOString s (Unsave recipeId response) =
     snd (handleUnsaveRecipe recipeId response s)"
| "step toLowerCase toISOString s (AddToPantry name response) =
     snd (addToPantry toLowerCase name response s)"
| "step toLowerCase toISOString s (UpdatePantryItem name updates response) =
     snd (updatePantryItem toISOString name updates response s)"
| "step toLowerCase toISOString s (RemovePantryItem name response) =
     snd (removePantryItem name response s)"

definition run ::
  "(string \<Rightarrow> string) \<Rightarrow> (string \<Rightarrow> Thrown + string) \<Rightarrow> AppState \<Rightarrow> Event list \<Rightarrow>
   AppState"
where
  "run toLowerCase toISOString s events = foldl (step toLowerCase toISOString) s events"

section \<open>The remote store client: \<open>ApiClient.request\<close> (api.ts, lines 126-157)\<close>

text \<open>A parsed JSON value; every JSON number is a real number.\<close>

datatype Json =
    JNull
  | JBool bool
  | JNumber real
  | JString string
  | JArray "Json list"
  | JObject "(string \<times> Json) list"

text \<open>
  \<open>errorData.detail\<close>: reading a property of \<open>null\<close> throws a \<open>TypeError\<close>, whose
  message is the engine's and an argument, \<open>nullReadMessage\<close>; an object gives the value
  of the key, the last one when the key is repeated, or \<open>undefined\<close> (\<open>None\<close>); any
  other value has no such property.
\<close>

fun getDetail :: "string \<Rightarrow> Json \<Rightarrow> Thrown + Json option" where
  "getDetail nullReadMessage JNull = Inl (ErrorInstance nullReadMessage)"
| "getDetail nullReadMessage (JObject members) = Inr (map_of (rev members) ''detail'')"
| "getDetail nullReadMessage other = Inr None"

text \<open>Truthiness, as \<open>||\<close> tests it.\<close>

fun truthy :: "Json \<Rightarrow> bool" where
  "truthy JNull = False"
| "truthy (JBool b) = b"
| "truthy (JNumber n) = (n \<noteq> 0)"
| "truthy (JString str) = (str \<noteq> [])"
| "truthy (JArray elements) = True"
| "truthy (JObject members) = True"

text \<open>
  What \<open>fetch\<close> and \<open>response.json()\<close> do is the argument of the model: \<open>fetch\<close>
  rejects with a thrown value, or resolves to a response with its \<open>ok\<close> flag, whose
  \<open>json()\<close> in turn rejects or resolves to the parsed body. The URL, the headers and the
  token only go into the call of \<open>fetch\<close> and are left out.
\<close>

datatype FetchOutcome =
    FetchRejects Thrown
  | FetchResolves bool "Thrown + Json"

text \<open>The \<open>catch\<close> block of lines 151-156, applied to whatever the \<open>try\<close> block threw.\<close>

definition catchBlock :: "Thrown \<Rightarrow> Thrown + Json" where
  "catchBlock error =
     (case error of
        ErrorInstance message \<Rightarrow> Inl (ErrorInstance message)
      | NonError \<Rightarrow> Inl (ErrorInstance ''Network error''))"

text \<open>
  \<open>new Error(v)\<close> takes \<open>String(v)\<close> as the message. The conversion is the engine's
  and an argument, \<open>stringOf\<close>; on a string it is not needed.
\<close>

definition request :: "(Json \<Rightarrow> string) \<Rightarrow> string \<Rightarrow> FetchOutcome \<Rightarrow> Thrown + Json" where
  "request stringOf nullReadMessage outcome =
     (case outcome of
        FetchRejects error \<Rightarrow> catchBlock error
      | FetchResolves ok body \<Rightarrow>
          if \<not> ok then
            (case body of
               Inl error \<Rightarrow> catchBlock error
             | Inr errorData \<Rightarrow>
                 (case getDetail nullReadMessage errorData of
                    Inl error \<Rightarrow> catchBlock error
                  | Inr None \<Rightarrow> catchBlock (ErrorInstance ''Request failed'')
                  | Inr (Some detail) \<Rightarrow>
                      catchBlock (ErrorInstance
                        (if truthy detail then
                           (case detail of JString message \<Rightarrow> message | other \<Rightarrow> stringOf other)
                         else ''Request failed''))))
          else
            (case body of
               Inl error \<Rightarrow> catchBlock error
             | Inr parsed \<Rightarrow> Inr parsed))"

section \<open>Which events end a saved mark\<close>

text \<open>
  The two ways the spec names for \<open>isSaved(id)\<close> to become false again: a successful
  \<open>unsave(id)\<close>, and a \<open>hydrate()\<close> whose response omits the id. The hydrate is
  \<open>fetchSavedRecipes\<close>, which runs inside the events that log the user in.
\<close>

fun endsSavedBySpec :: "string \<Rightarrow> Event \<Rightarrow> bool" where
  "endsSavedBySpec recipeId (Unsave otherId (Inr okr)) = (otherId = recipeId)"
| "endsSavedBySpec recipeId (Login (Inr items) pantryResponse) =
     (recipeId \<notin> sr_recipe_id ` set items)"
| "endsSavedBySpec recipeId (CheckAuth token profile (Inr items) pantryResponse) =
     (recipeId \<notin> sr_recipe_id ` set items)"
| "endsSavedBySpec recipeId e = False"

text \<open>The same, and the logout.\<close>

definition endsSaved :: "string \<Rightarrow> Event \<Rightarrow> bool" where
  "endsSaved recipeId e = (e = Logout \<or> endsSavedBySpec recipeId e)"

text \<open>The saved-id set holds exactly the \<open>recipe_id\<close>s of the saved list.\<close>

definition idsConsistent :: "AppState \<Rightarrow> bool" where
  "idsConsistent s = (savedRecipeIds s = sr_recipe_id ` set (savedRecipes s))"

section \<open>The stored entry overlaid with the updates\<close>

text \<open>
  The spec's words for the payload of an update: the last known local snapshot of the
  item, found by its name in the pantry, overlaid with the updates. Per field: the value
  the updates supply when they supply the key, and otherwise the value of the stored
  entry, if there is one.
\<close>

definition overlaidName :: "PantryItem list \<Rightarrow> string \<Rightarrow> PantryUpdates \<Rightarrow> string option" where
  "overlaidName items name updates =
     (case u_name updates of
        KeyPresent v \<Rightarrow> v
      | KeyAbsent \<Rightarrow>
          (case find (\<lambda>i. p_name i = name) items of
             Some current \<Rightarrow> Some (p_name current)
           | None \<Rightarrow> None))"

definition overlaidQuantity :: "PantryItem list \<Rightarrow> string \<Rightarrow> PantryUpdates \<Rightarrow> string option" where
  "overlaidQuantity items name updates =
     (case u_quantity updates of
        KeyPresent v \<Rightarrow> v
      | KeyAbsent \<Rightarrow>
          (case find (\<lambda>i. p_name i = name) items of
             Some current \<Rightarrow> Some (p_quantity current)
           | None \<Rightarrow> None))"

definition overlaidExpiry :: "PantryItem list \<Rightarrow> string \<Rightarrow> PantryUpdates \<Rightarrow> string option" where
  "overlaidExpiry items name updates =
     (case u_expiryDate updates of
        KeyPresent v \<Rightarrow> v
      | KeyAbsent \<Rightarrow>
          (case find (\<lambda>i. p_name i = name) items of
             Some current \<Rightarrow> p_expiryDate current
           | None \<Rightarrow> None))"

section \<open>Concrete inputs\<close>

text \<open>
  A stand-in for \<open>toLowerCase\<close>: it lowers the ASCII capitals and keeps every other
  character. It is applied below to texts of ASCII characters only, where it gives what
  \<open>String.prototype.toLowerCase\<close> gives.
\<close>

definition asciiToLowerChar :: "char \<Rightarrow> char" where
  "asciiToLowerChar c =
     (case map_of (zip ''ABCDEFGHIJKLMNOPQRSTUVWXYZ'' ''abcdefghijklmnopqrstuvwxyz'') c of
        Some lower \<Rightarrow> lower
      | None \<Rightarrow> c)"

definition asciiToLowerCase :: "string \<Rightarrow> string" where
  "asciiToLowerCase str = map asciiToLowerChar str"

text \<open>
  A stand-in for \<open>new Date(d).toISOString()\<close>: on a date \<open>YYYY-MM-DD\<close>, the only
  texts of length ten it is applied to below, it gives midnight UTC of that day.
\<close>

definition exampleToISOString :: "string \<Rightarrow> Thrown + string" where
  "exampleToISOString d =
     (if length d = 10 then Inr (d @ ''T00:00:00.000Z'')
      else Inl (ErrorInstance ''Invalid time value''))"

definition soup :: RecipeRecord where
  "soup =
     \<lparr>r_id = ''r1'', r_title = ''Soup'', r_image = ''soup.png'', r_cuisine = ''French'',
      r_meal_type = ''Starter'', r_tags = [''warm''], r_ingredients = [(''Leek'', ''2'')],
      r_instructions = [''Boil''], r_time_minutes = None, r_servings = None,
      r_difficulty = None, r_nutrition_summary = None, r_is_ai_generated = None\<rparr>"

definition stew :: RecipeRecord where
  "stew = soup\<lparr>r_id := ''ai7'', r_title := ''Stew'', r_time_minutes := Some 40,
     r_is_ai_generated := Some False\<rparr>"

definition curry :: RecipeRecord where
  "curry = soup\<lparr>r_id := ''ai8'', r_title := ''Curry'', r_is_ai_generated := Some True\<rparr>"

definition noon :: Clock where
  "noon = \<lparr>dateNow = 1700, isoNow = ''2024-05-01T12:00:00.000Z''\<rparr>"

definition loggedInState :: AppState where
  "loggedInState = handleLogin (Inr []) (Inr []) (initialState\<lparr>isLoading := False\<rparr>)"

definition tomato :: PantryItem where
  "tomato =
     \<lparr>p_name = ''tomato'', p_quantity = ''2'', p_expiryDate = Some ''2024-05-01'',
      p_addedAt = ''2024-04-01T08:00:00Z''\<rparr>"

definition serverTomato :: PantryItemOut where
  "serverTomato =
     \<lparr>po_name = ''Tomato'', po_quantity = Some ''5'', po_expiry_date = None,
      po_added_at = ''2024-04-02T08:00:00Z''\<rparr>"

definition pantryState :: AppState where
  "pantryState = loggedInState\<lparr>pantry := [tomato]\<rparr>"

definition noUpdates :: PantryUpdates where
  "noUpdates =
     \<lparr>u_name = KeyAbsent, u_quantity = KeyAbsent, u_expiryDate = KeyAbsent,
      u_addedAt = KeyAbsent\<rparr>"

definition busyEvents :: "Event list" where
  "busyEvents =
     [AddToPantry ''Tomato'' (Inr serverTomato),
      Save noon curry (Inr True),
      Unsave ''ai8'' (Inr True),
      Unsave ''r1'' (Inl (ErrorInstance ''Not found'')),
      TabChange TabPantry,
      Login (Inr [newSavedRecipe noon soup]) (Inr [])]"

definition newExpiry :: PantryUpdates where
  "newExpiry = noUpdates\<lparr>u_expiryDate := KeyPresent (Some ''2024-06-01'')\<rparr>"

definition newQuantity :: PantryUpdates where
  "newQuantity = noUpdates\<lparr>u_quantity := KeyPresent (Some ''3'')\<rparr>"

definition newName :: PantryUpdates where
  "newName = noUpdates\<lparr>u_name := KeyPresent (Some ''leek'')\<rparr>"

definition onion :: PantryItem where
  "onion =
     \<lparr>p_name = ''onion'', p_quantity = ''1'', p_expiryDate = None,
      p_addedAt = ''2024-03-01T08:00:00Z''\<rparr>"

definition confirmedTomato :: PantryItemOut where
  "confirmedTomato =
     \<lparr>po_name = ''tomato'', po_quantity = Some ''5'', po_expiry_date = None,
      po_added_at = ''2024-04-01T08:00:00Z''\<rparr>"

definition larderState :: AppState where
  "larderState = loggedInState\<lparr>pantry := [onion, tomato]\<rparr>"

section \<open>Evaluating the concrete inputs\<close>

lemmas handler_defs =
  fetchSavedRecipes_def fetchPantry_def loggedOutBranch_def isLoggedInEffect_def
  handleLogin_def handleLogout_def handleSaveRecipe_def handleUnsaveRecipe_def
  addToPantry_def updatePantryItem_def removePantryItem_def checkAuth_def
  handleTabChange_def updateIngredientsFromSelection_def Let_def

lemma loggedInState_value:
  "loggedInState =
     \<lparr>activeTab = TabProfile, isLoggedIn = True, isLoading = False, savedRecipes = [],
      savedRecipeIds = {}, searchIngredients = [], pantry = [],
      apiCalls = [GetSavedRecipes, GetPantry]\<rparr>"
  by (simp add: loggedInState_def initialState_def handler_defs)

lemma pantryState_value:
  "pantryState =
     \<lparr>activeTab = TabProfile, isLoggedIn = True, isLoading = False, savedRecipes = [],
      savedRecipeIds = {}, searchIngredients = [], pantry = [tomato],
      apiCalls = [GetSavedRecipes, GetPantry]\<rparr>"
  by (simp add: pantryState_def loggedInState_value)

lemma larderState_value:
  "larderState =
     \<lparr>activeTab = TabProfile, isLoggedIn = True, isLoading = False, savedRecipes = [],
      savedRecipeIds = {}, searchIngredients = [], pantry = [onion, tomato],
      apiCalls = [GetSavedRecipes, GetPantry]\<rparr>"
  by (simp add: larderState_def loggedInState_value)

section \<open>Unsave\<close>

text \<open>
  C2. If the remote delete fails, \<open>handleUnsaveRecipe\<close> throws the error and the saved
  list and the saved-id set are what they were before the call. If it succeeds, every
  entry whose \<open>recipe_id\<close> is the given one is gone from the list (all others stay, in
  order) and the id is gone from the saved-id set.
\<close>

theorem unsave_failure_keeps_success_removes_all:
  "fst (handleUnsaveRecipe recipeId (Inl error) s) = Inl error \<and>
   savedRecipes (snd (handleUnsaveRecipe recipeId (Inl error) s)) = savedRecipes s \<and>
   savedRecipeIds (snd (handleUnsaveRecipe recipeId (Inl error) s)) = savedRecipeIds s \<and>
   fst (handleUnsaveRecipe recipeId (Inr okr) s) = Inr () \<and>
   savedRecipes (snd (handleUnsaveRecipe recipeId (Inr okr) s)) =
     filter (\<lambda>recipe. sr_recipe_id recipe \<noteq> recipeId) (savedRecipes s) \<and>
   recipeId \<notin> sr_recipe_id ` set (savedRecipes (snd (handleUnsaveRecipe recipeId (Inr okr) s))) \<and>
   savedRecipeIds (snd (handleUnsaveRecipe recipeId (Inr okr) s)) = savedRecipeIds s - {recipeId} \<and>
   \<not> isSaved recipeId (snd (handleUnsaveRecipe recipeId (Inr okr) s))"
  by (auto simp: handleUnsaveRecipe_def isSaved_def)


section \<open>Save\<close>

text \<open>
  C4. If the remote save fails, \<open>handleSaveRecipe\<close> throws the error, and the saved
  list and the saved-id set (and the pantry) are what they were before the call: the
  local update comes after the awaited call and is never applied.
\<close>

theorem save_failure_throws_and_keeps_state:
  "fst (handleSaveRecipe clock recipe (Inl error) s) = Inl error \<and>
   savedRecipes (snd (handleSaveRecipe clock recipe (Inl error) s)) = savedRecipes s \<and>
   savedRecipeIds (snd (handleSaveRecipe clock recipe (Inl error) s)) = savedRecipeIds s \<and>
   pantry (snd (handleSaveRecipe clock recipe (Inl error) s)) = pantry s"
  by (simp add: handleSaveRecipe_def)

text \<open>
  C3, as the claim states it, fails: a record whose \<open>is_ai_generated\<close> key is present
  with the value \<open>false\<close> is sent with the source "AI".
\<close>

theorem save_source_counterexample:
  "r_is_ai_generated stew = Some False \<and>
   sd_source (saveData stew) = ''AI'' \<and>
   sd_source (saveData stew) \<noteq> ''TheMealDB'' \<and>
   last (apiCalls (snd (handleSaveRecipe noon stew (Inr True) loggedInState))) =
     SaveRecipe ''ai7'' (saveData stew)"
  by (simp add: saveData_def stew_def soup_def handleSaveRecipe_def loggedInState_value)

text \<open>
  C3, amended. The request that \<open>handleSaveRecipe\<close> sends is \<open>saveData\<close> of the record.
  Its source is "AI" exactly when the key \<open>is_ai_generated\<close> is present in the record,
  whatever its value, and "TheMealDB" exactly when the key is absent; its
  \<open>is_ai_generated\<close> is the value of the key when present and \<open>false\<close> when absent.
\<close>

theorem save_source_follows_key_presence:
  "last (apiCalls (snd (handleSaveRecipe clock recipe response s))) =
     SaveRecipe (r_id recipe) (saveData recipe) \<and>
   (sd_source (saveData recipe) = ''AI'') = (r_is_ai_generated recipe \<noteq> None) \<and>
   (sd_source (saveData recipe) = ''TheMealDB'') = (r_is_ai_generated recipe = None) \<and>
   sd_is_ai_generated (saveData recipe) = (r_is_ai_generated recipe = Some True)"
  by (cases response; cases "r_is_ai_generated recipe")
     (simp_all add: handleSaveRecipe_def saveData_def)

section \<open>Hydrate\<close>

text \<open>
  C7. A successful \<open>fetchSavedRecipes\<close> sets the saved list to the fetched items and the
  saved-id set to their \<open>recipe_id\<close>s, whatever the state was before. For one and the
  same response (also a failed one), running it twice gives the saved list and the
  saved-id set that running it once gives.
\<close>

theorem hydrate_replaces_and_is_idempotent:
  "savedRecipes (fetchSavedRecipes (Inr items) s) = items \<and>
   savedRecipeIds (fetchSavedRecipes (Inr items) s) = sr_recipe_id ` set items \<and>
   savedRecipes (fetchSavedRecipes response (fetchSavedRecipes response s)) =
     savedRecipes (fetchSavedRecipes response s) \<and>
   savedRecipeIds (fetchSavedRecipes response (fetchSavedRecipes response s)) =
     savedRecipeIds (fetchSavedRecipes response s)"
  by (cases response) (simp_all add: fetchSavedRecipes_def)

section \<open>Logout\<close>

lemma handleLogout_runs_effect:
  "isLoggedIn s \<Longrightarrow>
   handleLogout s =
     isLoggedInEffect savedResponse pantryResponse (s\<lparr>isLoggedIn := False, activeTab := TabAuth\<rparr>)"
  by (simp add: handleLogout_def isLoggedInEffect_def)

text \<open>
  C8. \<open>handleLogout\<close> in a logged-in session (the only place the logout button is
  shown) leaves the saved list, the saved-id set and the pantry empty, whatever they
  held. It makes no call on \<open>api\<close>, and a second \<open>handleLogout\<close> changes nothing.
\<close>

theorem logout_clears_collections:
  assumes "isLoggedIn s"
  shows "savedRecipes (handleLogout s) = [] \<and>
         savedRecipeIds (handleLogout s) = {} \<and>
         pantry (handleLogout s) = [] \<and>
         \<not> isLoggedIn (handleLogout s) \<and>
         apiCalls (handleLogout s) = apiCalls s \<and>
         handleLogout (handleLogout s) = handleLogout s"
  using assms by (simp add: handleLogout_def loggedOutBranch_def)

theorem logout_clears_collections_witness:
  "isLoggedIn (snd (handleSaveRecipe noon soup (Inr True) pantryState)) \<and>
   savedRecipes (snd (handleSaveRecipe noon soup (Inr True) pantryState)) \<noteq> [] \<and>
   pantry (snd (handleSaveRecipe noon soup (Inr True) pantryState)) \<noteq> [] \<and>
   savedRecipes (handleLogout (snd (handleSaveRecipe noon soup (Inr True) pantryState))) = [] \<and>
   savedRecipeIds (handleLogout (snd (handleSaveRecipe noon soup (Inr True) pantryState))) = {} \<and>
   pantry (handleLogout (snd (handleSaveRecipe noon soup (Inr True) pantryState))) = [] \<and>
   handleLogout (handleLogout (snd (handleSaveRecipe noon soup (Inr True) pantryState))) =
     handleLogout (snd (handleSaveRecipe noon soup (Inr True) pantryState))"
proof -
  have logged: "isLoggedIn (snd (handleSaveRecipe noon soup (Inr True) pantryState))"
    by (simp add: handleSaveRecipe_def pantryState_value)
  have filled:
    "savedRecipes (snd (handleSaveRecipe noon soup (Inr True) pantryState)) \<noteq> [] \<and>
     pantry (snd (handleSaveRecipe noon soup (Inr True) pantryState)) \<noteq> []"
    by (simp add: handleSaveRecipe_def pantryState_value)
  from logged filled logout_clears_collections [OF logged] show ?thesis by simp
qed

section \<open>How long a saved mark lasts\<close>

lemma step_keeps_saved:
  assumes "isSaved recipeId s" and "\<not> endsSaved recipeId e"
  shows "isSaved recipeId (step toLowerCase toISOString s e)"
proof (cases e)
  case (CheckAuth token profile savedResponse pantryResponse)
  with assms show ?thesis
    by (cases savedResponse; cases pantryResponse; cases profile; cases token)
       (auto simp: endsSaved_def isSaved_def handler_defs)
next
  case (Login savedResponse pantryResponse)
  with assms show ?thesis
    by (cases savedResponse; cases pantryResponse)
       (auto simp: endsSaved_def isSaved_def handler_defs)
next
  case Logout
  with assms show ?thesis by (simp add: endsSaved_def)
next
  case (TabChange tab)
  with assms show ?thesis by (simp add: isSaved_def handler_defs)
next
  case (SelectIngredients list)
  with assms show ?thesis by (simp add: isSaved_def handler_defs)
next
  case (SetSearchIngredients newText)
  with assms show ?thesis by (simp add: isSaved_def)
next
  case (Save clock recipe response)
  with assms show ?thesis by (cases response) (simp_all add: isSaved_def handler_defs)
next
  case (Unsave otherId response)
  with assms show ?thesis
    by (cases response) (auto simp: endsSaved_def isSaved_def handler_defs)
next
  case (AddToPantry name response)
  with assms show ?thesis by (cases response) (simp_all add: isSaved_def handler_defs)
next
  case (UpdatePantryItem name updates response)
  with assms show ?thesis
    by (cases response; cases "updatePayload toISOString (pantry s) name updates")
       (simp_all add: isSaved_def handler_defs)
next
  case (RemovePantryItem name response)
  with assms show ?thesis by (cases response) (simp_all add: isSaved_def handler_defs)
qed

lemma run_keeps_saved:
  "isSaved recipeId s \<Longrightarrow> list_all (\<lambda>e. \<not> endsSaved recipeId e) events \<Longrightarrow>
   isSaved recipeId (run toLowerCase toISOString s events)"
proof (induction events arbitrary: s)
  case Nil
  then show ?case by (simp add: run_def)
next
  case (Cons e events)
  from Cons.prems have "isSaved recipeId (step toLowerCase toISOString s e)"
    by (simp add: step_keeps_saved)
  with Cons.prems have "isSaved recipeId (run toLowerCase toISOString (step toLowerCase toISOString s e) events)"
    by (intro Cons.IH) simp_all
  then show ?case by (simp add: run_def)
qed

text \<open>
  C1, as the claim states it, fails: after a successful save, a logout (which is
  neither an unsave nor a hydrate) makes \<open>isSaved\<close> false.
\<close>

theorem saved_until_counterexample:
  "list_all (\<lambda>e. \<not> endsSavedBySpec ''r1'' e) [Logout] \<and>
   isSaved ''r1'' (snd (handleSaveRecipe noon soup (Inr True) loggedInState)) \<and>
   \<not> isSaved ''r1''
       (run asciiToLowerCase exampleToISOString (snd (handleSaveRecipe noon soup (Inr True) loggedInState))
          [Logout])"
  by (simp add: run_def isSaved_def soup_def loggedInState_value handler_defs)

text \<open>
  C1, amended. When the remote save succeeds, \<open>handleSaveRecipe\<close> returns normally,
  \<open>isSaved\<close> of the recipe's id is true in the resulting state, and the saved list is the
  old one with a new record in front whose \<open>recipe_id\<close> is the recipe's id. \<open>isSaved\<close>
  stays true through every run of events that holds no successful unsave of that id, no
  hydrate whose response omits it, and no logout.
\<close>

theorem save_marks_saved_until_unsave_hydrate_or_logout:
  assumes "list_all (\<lambda>e. \<not> endsSaved (r_id recipe) e) events"
  shows "fst (handleSaveRecipe clock recipe (Inr okr) s) = Inr () \<and>
         isSaved (r_id recipe) (snd (handleSaveRecipe clock recipe (Inr okr) s)) \<and>
         savedRecipes (snd (handleSaveRecipe clock recipe (Inr okr) s)) =
           newSavedRecipe clock recipe # savedRecipes s \<and>
         sr_recipe_id (newSavedRecipe clock recipe) = r_id recipe \<and>
         isSaved (r_id recipe)
           (run toLowerCase toISOString (snd (handleSaveRecipe clock recipe (Inr okr) s)) events)"
proof -
  have now: "isSaved (r_id recipe) (snd (handleSaveRecipe clock recipe (Inr okr) s))"
    by (simp add: handleSaveRecipe_def isSaved_def)
  from now assms have later:
    "isSaved (r_id recipe)
       (run toLowerCase toISOString (snd (handleSaveRecipe clock recipe (Inr okr) s)) events)"
    by (rule run_keeps_saved)
  have front:
    "savedRecipes (snd (handleSaveRecipe clock recipe (Inr okr) s)) =
       newSavedRecipe clock recipe # savedRecipes s"
    by (simp add: handleSaveRecipe_def)
  have returns: "fst (handleSaveRecipe clock recipe (Inr okr) s) = Inr ()"
    by (simp add: handleSaveRecipe_def)
  have "sr_recipe_id (newSavedRecipe clock recipe) = r_id recipe"
    by (simp add: newSavedRecipe_def)
  with now later front returns show ?thesis by simp
qed

theorem save_marks_saved_until_unsave_hydrate_or_logout_witness:
  "list_all (\<lambda>e. \<not> endsSaved (r_id soup) e) busyEvents \<and>
   isSaved ''r1''
     (run asciiToLowerCase exampleToISOString (snd (handleSaveRecipe noon soup (Inr True) loggedInState))
        busyEvents)"
proof -
  have harmless: "list_all (\<lambda>e. \<not> endsSaved (r_id soup) e) busyEvents"
    by (simp add: busyEvents_def endsSaved_def soup_def newSavedRecipe_def)
  have "r_id soup = ''r1''"
    by (simp add: soup_def)
  with harmless
    save_marks_saved_until_unsave_hydrate_or_logout
      [OF harmless, of noon True loggedInState asciiToLowerCase exampleToISOString]
  show ?thesis by simp
qed

section \<open>The saved-id set and the saved list agree\<close>

lemma step_keeps_idsConsistent:
  assumes "idsConsistent s"
  shows "idsConsistent (step toLowerCase toISOString s e)"
proof (cases e)
  case (CheckAuth token profile savedResponse pantryResponse)
  with assms show ?thesis
    by (cases savedResponse; cases pantryResponse; cases profile; cases token)
       (auto simp: idsConsistent_def handler_defs)
next
  case (Login savedResponse pantryResponse)
  with assms show ?thesis
    by (cases savedResponse; cases pantryResponse) (auto simp: idsConsistent_def handler_defs)
next
  case Logout
  with assms show ?thesis by (simp add: idsConsistent_def handler_defs)
next
  case (TabChange tab)
  with assms show ?thesis by (simp add: idsConsistent_def handler_defs)
next
  case (SelectIngredients list)
  with assms show ?thesis by (simp add: idsConsistent_def handler_defs)
next
  case (SetSearchIngredients newText)
  with assms show ?thesis by (simp add: idsConsistent_def)
next
  case (Save clock recipe response)
  with assms show ?thesis
    by (cases response) (simp_all add: idsConsistent_def handler_defs newSavedRecipe_def)
next
  case (Unsave otherId response)
  with assms show ?thesis
    by (cases response) (auto simp: idsConsistent_def handler_defs)
next
  case (AddToPantry name response)
  with assms show ?thesis by (cases response) (simp_all add: idsConsistent_def handler_defs)
next
  case (UpdatePantryItem name updates response)
  with assms show ?thesis
    by (cases response; cases "updatePayload toISOString (pantry s) name updates")
       (simp_all add: idsConsistent_def handler_defs)
next
  case (RemovePantryItem name response)
  with assms show ?thesis by (cases response) (simp_all add: idsConsistent_def handler_defs)
qed

lemma run_keeps_idsConsistent:
  "idsConsistent s \<Longrightarrow> idsConsistent (run toLowerCase toISOString s events)"
proof (induction events arbitrary: s)
  case Nil
  then show ?case by (simp add: run_def)
next
  case (Cons e events)
  from Cons.prems have "idsConsistent (step toLowerCase toISOString s e)"
    by (rule step_keeps_idsConsistent)
  then have "idsConsistent (run toLowerCase toISOString (step toLowerCase toISOString s e) events)"
    by (rule Cons.IH)
  then show ?case by (simp add: run_def)
qed

text \<open>
  C10. A successful hydrate and the clearing on logout leave the saved-id set equal to
  the set of \<open>recipe_id\<close>s of the saved list, whatever the state was; a successful save
  and a successful unsave keep them equal. So they are equal after every run of events
  from the initial state, and there \<open>isSaved\<close> of an id is true exactly when some entry of
  the saved list has that \<open>recipe_id\<close>.
\<close>

theorem saved_ids_match_saved_list:
  "idsConsistent (fetchSavedRecipes (Inr items) s) \<and>
   idsConsistent (loggedOutBranch s) \<and>
   (idsConsistent s \<longrightarrow> idsConsistent (snd (handleSaveRecipe clock recipe (Inr okr) s))) \<and>
   (idsConsistent s \<longrightarrow> idsConsistent (snd (handleUnsaveRecipe recipeId (Inr okr) s))) \<and>
   idsConsistent (run toLowerCase toISOString initialState events) \<and>
   isSaved recipeId (run toLowerCase toISOString initialState events) =
     (recipeId \<in> sr_recipe_id ` set (savedRecipes (run toLowerCase toISOString initialState events)))"
proof -
  have start: "idsConsistent initialState"
    by (simp add: idsConsistent_def initialState_def)
  then have reached: "idsConsistent (run toLowerCase toISOString initialState events)"
    by (rule run_keeps_idsConsistent)
  have hydrate: "idsConsistent (fetchSavedRecipes (Inr items) s)"
    by (simp add: idsConsistent_def fetchSavedRecipes_def)
  have cleared: "idsConsistent (loggedOutBranch s)"
    by (simp add: idsConsistent_def loggedOutBranch_def)
  have save: "idsConsistent s \<longrightarrow> idsConsistent (snd (handleSaveRecipe clock recipe (Inr okr) s))"
    using step_keeps_idsConsistent [of s toLowerCase toISOString "Save clock recipe (Inr okr)"]
    by simp
  have unsave: "idsConsistent s \<longrightarrow> idsConsistent (snd (handleUnsaveRecipe recipeId (Inr okr) s))"
    using step_keeps_idsConsistent [of s toLowerCase toISOString "Unsave recipeId (Inr okr)"]
    by simp
  from reached have
    "isSaved recipeId (run toLowerCase toISOString initialState events) =
       (recipeId \<in> sr_recipe_id ` set (savedRecipes (run toLowerCase toISOString initialState events)))"
    by (simp add: idsConsistent_def isSaved_def)
  with reached hydrate cleared save unsave show ?thesis by blast
qed

theorem saved_ids_match_saved_list_witness:
  "idsConsistent loggedInState \<and>
   idsConsistent (snd (handleSaveRecipe noon soup (Inr True) loggedInState)) \<and>
   idsConsistent (snd (handleUnsaveRecipe ''r1'' (Inr True) loggedInState)) \<and>
   idsConsistent
     (run asciiToLowerCase exampleToISOString initialState
        [Login (Inr []) (Inr []), Save noon soup (Inr True), Save noon soup (Inr True),
         Unsave ''r1'' (Inr True)])"
proof -
  have ok: "idsConsistent loggedInState"
    by (simp add: idsConsistent_def loggedInState_value)
  from ok
    saved_ids_match_saved_list
      [of "[]" loggedInState noon soup True "''r1''" asciiToLowerCase exampleToISOString
          "[Login (Inr []) (Inr []), Save noon soup (Inr True), Save noon soup (Inr True),
            Unsave ''r1'' (Inr True)]"]
  show ?thesis by blast
qed

section \<open>Pantry upsert\<close>

text \<open>
  C5, as the claim states it, fails on the update path: updating "tomato", stored
  second in the pantry after "onion", succeeds and puts the item the server confirmed
  in the second place, where the stored entry was; it is not put in front.
\<close>

theorem pantry_update_counterexample:
  "fst (updatePantryItem exampleToISOString ''tomato'' noUpdates (Inr confirmedTomato)
      larderState) = Inr () \<and>
   pantry (snd (updatePantryItem exampleToISOString ''tomato'' noUpdates (Inr confirmedTomato)
      larderState)) = [onion, mapPantryOut confirmedTomato] \<and>
   pantry (snd (updatePantryItem exampleToISOString ''tomato'' noUpdates (Inr confirmedTomato)
      larderState)) \<noteq>
     mapPantryOut confirmedTomato #
       filter (\<lambda>i. asciiToLowerCase (p_name i) \<noteq> asciiToLowerCase ''tomato'')
         (pantry larderState)"
  by (simp add: updatePantryItem_def updatePayload_def mergeItem_def spreadField_def
      noUpdates_def larderState_value tomato_def onion_def exampleToISOString_def
      mapPantryOut_def confirmedTomato_def)

lemma filter_same_key_of_others:
  "filter (\<lambda>i. key i = k) (filter (\<lambda>i. key i \<noteq> k) items) = []"
  by (induction items) simp_all

text \<open>
  C5, amended. After a successful \<open>addToPantry\<close>, the pantry is the item the server
  confirmed, followed by the old entries whose name differs from the given name when
  both are lower-cased. So the confirmed item is the only entry for that name: no entry
  behind it matches the name, and it is the one entry that does when its own name
  matches. After
  \<open>updatePantryItem\<close> with a successful upsert, the pantry is the old one with every
  entry whose name is exactly the given name replaced, in place, by the confirmed item:
  nothing is removed or put in front, and all other entries keep their place. (When the
  payload cannot be built, the pantry is left as it was.)
\<close>

theorem pantry_add_replaces_update_maps_in_place:
  "pantry (snd (addToPantry toLowerCase name (Inr saved) s)) =
     mapPantryOut saved #
       filter (\<lambda>i. toLowerCase (p_name i) \<noteq> toLowerCase name) (pantry s) \<and>
   filter (\<lambda>i. toLowerCase (p_name i) = toLowerCase name)
     (tl (pantry (snd (addToPantry toLowerCase name (Inr saved) s)))) = [] \<and>
   (toLowerCase (po_name saved) = toLowerCase name \<longrightarrow>
      length (filter (\<lambda>i. toLowerCase (p_name i) = toLowerCase name)
        (pantry (snd (addToPantry toLowerCase name (Inr saved) s)))) = 1) \<and>
   pantry (snd (updatePantryItem toISOString name updates (Inr saved) s)) =
     (case updatePayload toISOString (pantry s) name updates of
        Inr payload \<Rightarrow> map (\<lambda>i. if p_name i = name then mapPantryOut saved else i) (pantry s)
      | Inl e \<Rightarrow> pantry s) \<and>
   length (pantry (snd (updatePantryItem toISOString name updates (Inr saved) s))) =
     length (pantry s)"
proof -
  have added:
    "pantry (snd (addToPantry toLowerCase name (Inr saved) s)) =
       mapPantryOut saved #
         filter (\<lambda>i. toLowerCase (p_name i) \<noteq> toLowerCase name) (pantry s)"
    by (simp add: addToPantry_def)
  have behind:
    "filter (\<lambda>i. toLowerCase (p_name i) = toLowerCase name)
       (tl (pantry (snd (addToPantry toLowerCase name (Inr saved) s)))) = []"
    using filter_same_key_of_others [of "\<lambda>i. toLowerCase (p_name i)" "toLowerCase name" "pantry s"]
    by (simp add: added)
  have one:
    "toLowerCase (po_name saved) = toLowerCase name \<longrightarrow>
       length (filter (\<lambda>i. toLowerCase (p_name i) = toLowerCase name)
         (pantry (snd (addToPantry toLowerCase name (Inr saved) s)))) = 1"
    using filter_same_key_of_others [of "\<lambda>i. toLowerCase (p_name i)" "toLowerCase name" "pantry s"]
    by (simp add: added mapPantryOut_def)
  have updated:
    "pantry (snd (updatePantryItem toISOString name updates (Inr saved) s)) =
       (case updatePayload toISOString (pantry s) name updates of
          Inr payload \<Rightarrow> map (\<lambda>i. if p_name i = name then mapPantryOut saved else i) (pantry s)
        | Inl e \<Rightarrow> pantry s)"
    by (cases "updatePayload toISOString (pantry s) name updates")
       (simp_all add: updatePantryItem_def)
  have "length (pantry (snd (updatePantryItem toISOString name updates (Inr saved) s))) =
          length (pantry s)"
    by (cases "updatePayload toISOString (pantry s) name updates")
       (simp_all add: updatePantryItem_def)
  with added behind one updated show ?thesis by blast
qed

theorem pantry_add_replaces_update_maps_in_place_witness:
  "asciiToLowerCase (po_name serverTomato) = asciiToLowerCase ''Tomato'' \<and>
   asciiToLowerCase (p_name tomato) = asciiToLowerCase ''Tomato'' \<and>
   pantry (snd (addToPantry asciiToLowerCase ''Tomato'' (Inr serverTomato) larderState)) =
     [mapPantryOut serverTomato, onion] \<and>
   length (filter (\<lambda>i. asciiToLowerCase (p_name i) = asciiToLowerCase ''Tomato'')
     (pantry (snd (addToPantry asciiToLowerCase ''Tomato'' (Inr serverTomato) larderState)))) = 1 \<and>
   pantry (snd (updatePantryItem exampleToISOString ''tomato'' newQuantity (Inr confirmedTomato)
      larderState)) = [onion, mapPantryOut confirmedTomato]"
proof -
  have same: "asciiToLowerCase (po_name serverTomato) = asciiToLowerCase ''Tomato''"
    by (simp add: serverTomato_def)
  have stored: "pantry larderState = [onion, tomato]"
    by (simp add: larderState_value)
  have lower: "asciiToLowerCase (p_name tomato) = asciiToLowerCase ''Tomato''"
    by (simp add: tomato_def asciiToLowerCase_def asciiToLowerChar_def)
  have other: "asciiToLowerCase (p_name onion) \<noteq> asciiToLowerCase ''Tomato''"
    by (simp add: onion_def asciiToLowerCase_def asciiToLowerChar_def)
  have payload:
    "updatePayload exampleToISOString [onion, tomato] ''tomato'' newQuantity =
       Inr \<lparr>pi_name = ''tomato'', pi_quantity = Some ''3'',
            pi_expiry_date = ExpiryString ''2024-05-01T00:00:00.000Z''\<rparr>"
    by (simp add: updatePayload_def mergeItem_def spreadField_def newQuantity_def
        noUpdates_def tomato_def onion_def exampleToISOString_def)
  have exact: "p_name tomato = ''tomato'' \<and> p_name onion \<noteq> ''tomato''"
    by (simp add: tomato_def onion_def)
  note addFacts =
    pantry_add_replaces_update_maps_in_place
      [of asciiToLowerCase "''Tomato''" serverTomato larderState exampleToISOString newQuantity]
  note updateFacts =
    pantry_add_replaces_update_maps_in_place
      [of asciiToLowerCase "''tomato''" confirmedTomato larderState exampleToISOString
          newQuantity]
  from addFacts have added:
    "pantry (snd (addToPantry asciiToLowerCase ''Tomato'' (Inr serverTomato) larderState)) =
       [mapPantryOut serverTomato, onion]"
    by (simp add: stored lower other)
  from addFacts same have one:
    "length (filter (\<lambda>i. asciiToLowerCase (p_name i) = asciiToLowerCase ''Tomato'')
       (pantry (snd (addToPantry asciiToLowerCase ''Tomato'' (Inr serverTomato) larderState)))) = 1"
    by blast
  from updateFacts have updated:
    "pantry (snd (updatePantryItem exampleToISOString ''tomato'' newQuantity
        (Inr confirmedTomato) larderState)) = [onion, mapPantryOut confirmedTomato]"
    by (simp add: payload stored exact)
  from same lower added one updated show ?thesis by blast
qed

section \<open>The payload of a pantry update\<close>

text \<open>
  C6, as the claim states it, fails on the name: when the updates carry a name, the
  stored entry overlaid with the updates has that name, but the payload that is sent
  keeps the name the handler was called with.
\<close>

theorem pantry_update_payload_counterexample:
  "overlaidName (pantry pantryState) ''tomato'' newName = Some ''leek'' \<and>
   m_name (mergeItem (find (\<lambda>i. p_name i = ''tomato'') (pantry pantryState)) newName) =
     Some ''leek'' \<and>
   apiCalls (snd (updatePantryItem exampleToISOString ''tomato'' newName (Inr confirmedTomato)
      pantryState)) =
     [GetSavedRecipes, GetPantry,
      UpsertPantryItem \<lparr>pi_name = ''tomato'', pi_quantity = Some ''2'',
        pi_expiry_date = ExpiryString ''2024-05-01T00:00:00.000Z''\<rparr>]"
  by (simp add: pantryState_value updatePantryItem_def updatePayload_def mergeItem_def
      spreadField_def overlaidName_def newName_def noUpdates_def tomato_def
      exampleToISOString_def)

lemma mergeItem_overlaid:
  "m_quantity (mergeItem (find (\<lambda>i. p_name i = name) items) updates) =
     overlaidQuantity items name updates \<and>
   m_expiryDate (mergeItem (find (\<lambda>i. p_name i = name) items) updates) =
     overlaidExpiry items name updates"
  by (cases "find (\<lambda>i. p_name i = name) items"; cases "u_quantity updates";
      cases "u_expiryDate updates")
     (simp_all add: mergeItem_def spreadField_def overlaidQuantity_def overlaidExpiry_def)

text \<open>
  C6, amended. \<open>updatePantryItem\<close> builds its payload from the given name (a name in
  the updates is ignored) and, for the quantity and the expiry date, from the stored
  entry with exactly that name overlaid with the updates: the value the updates supply
  when they supply the key, otherwise the value of the stored entry. The expiry date
  goes out as \<open>null\<close> when it is missing or empty and as a timestamp otherwise. The
  payload is sent in every case but one: when the conversion to a timestamp throws, the
  handler throws that error, sends nothing and leaves the state as it was. When the
  pantry stores no entry with that name, a field the updates do not supply is empty: the
  quantity \<open>undefined\<close>, the expiry date \<open>null\<close>.
\<close>

theorem pantry_update_payload_overlays_quantity_and_expiry:
  "updatePayload toISOString (pantry s) name updates =
     (case overlaidExpiry (pantry s) name updates of
        None \<Rightarrow>
          Inr \<lparr>pi_name = name, pi_quantity = overlaidQuantity (pantry s) name updates,
               pi_expiry_date = ExpiryNull\<rparr>
      | Some d \<Rightarrow>
          if d = [] then
            Inr \<lparr>pi_name = name, pi_quantity = overlaidQuantity (pantry s) name updates,
                 pi_expiry_date = ExpiryNull\<rparr>
          else
            (case toISOString d of
               Inl e \<Rightarrow> Inl e
             | Inr stamp \<Rightarrow>
                 Inr \<lparr>pi_name = name, pi_quantity = overlaidQuantity (pantry s) name updates,
                      pi_expiry_date = ExpiryString stamp\<rparr>)) \<and>
   (case updatePayload toISOString (pantry s) name updates of
      Inr payload \<Rightarrow>
        apiCalls (snd (updatePantryItem toISOString name updates response s)) =
          apiCalls s @ [UpsertPantryItem payload]
    | Inl e \<Rightarrow> updatePantryItem toISOString name updates response s = (Inl e, s)) \<and>
   (find (\<lambda>i. p_name i = name) (pantry s) = None \<and> u_quantity updates = KeyAbsent \<longrightarrow>
      overlaidQuantity (pantry s) name updates = None) \<and>
   (find (\<lambda>i. p_name i = name) (pantry s) = None \<and> u_expiryDate updates = KeyAbsent \<longrightarrow>
      overlaidExpiry (pantry s) name updates = None)"
proof -
  have built:
    "updatePayload toISOString (pantry s) name updates =
       (case overlaidExpiry (pantry s) name updates of
          None \<Rightarrow>
            Inr \<lparr>pi_name = name, pi_quantity = overlaidQuantity (pantry s) name updates,
                 pi_expiry_date = ExpiryNull\<rparr>
        | Some d \<Rightarrow>
            if d = [] then
              Inr \<lparr>pi_name = name, pi_quantity = overlaidQuantity (pantry s) name updates,
                   pi_expiry_date = ExpiryNull\<rparr>
            else
              (case toISOString d of
                 Inl e \<Rightarrow> Inl e
               | Inr stamp \<Rightarrow>
                   Inr \<lparr>pi_name = name, pi_quantity = overlaidQuantity (pantry s) name updates,
                        pi_expiry_date = ExpiryString stamp\<rparr>))"
    by (cases "overlaidExpiry (pantry s) name updates")
       (simp_all add: updatePayload_def Let_def mergeItem_overlaid split: sum.splits)
  have sent:
    "(case updatePayload toISOString (pantry s) name updates of
        Inr payload \<Rightarrow>
          apiCalls (snd (updatePantryItem toISOString name updates response s)) =
            apiCalls s @ [UpsertPantryItem payload]
      | Inl e \<Rightarrow> updatePantryItem toISOString name updates response s = (Inl e, s))"
    by (cases "updatePayload toISOString (pantry s) name updates"; cases response)
       (simp_all add: updatePantryItem_def)
  have noQuantity:
    "find (\<lambda>i. p_name i = name) (pantry s) = None \<and> u_quantity updates = KeyAbsent \<longrightarrow>
       overlaidQuantity (pantry s) name updates = None"
    by (simp add: overlaidQuantity_def)
  have noExpiry:
    "find (\<lambda>i. p_name i = name) (pantry s) = None \<and> u_expiryDate updates = KeyAbsent \<longrightarrow>
       overlaidExpiry (pantry s) name updates = None"
    by (simp add: overlaidExpiry_def)
  from built sent noQuantity noExpiry show ?thesis by blast
qed

theorem pantry_update_payload_overlays_quantity_and_expiry_witness:
  "updatePayload exampleToISOString (pantry larderState) ''onion'' newQuantity =
     Inr \<lparr>pi_name = ''onion'', pi_quantity = Some ''3'', pi_expiry_date = ExpiryNull\<rparr> \<and>
   apiCalls (snd (updatePantryItem exampleToISOString ''onion'' newQuantity
      (Inr confirmedTomato) larderState)) =
     [GetSavedRecipes, GetPantry,
      UpsertPantryItem \<lparr>pi_name = ''onion'', pi_quantity = Some ''3'',
        pi_expiry_date = ExpiryNull\<rparr>] \<and>
   updatePayload exampleToISOString (pantry larderState) ''tomato'' newQuantity =
     Inr \<lparr>pi_name = ''tomato'', pi_quantity = Some ''3'',
          pi_expiry_date = ExpiryString ''2024-05-01T00:00:00.000Z''\<rparr> \<and>
   find (\<lambda>i. p_name i = ''eggs'') (pantry larderState) = None \<and>
   u_quantity newExpiry = KeyAbsent \<and>
   updatePayload exampleToISOString (pantry larderState) ''eggs'' newExpiry =
     Inr \<lparr>pi_name = ''eggs'', pi_quantity = None,
          pi_expiry_date = ExpiryString ''2024-06-01T00:00:00.000Z''\<rparr>"
proof -
  have stored: "pantry larderState = [onion, tomato]"
    by (simp add: larderState_value)
  have calls: "apiCalls larderState = [GetSavedRecipes, GetPantry]"
    by (simp add: larderState_value)
  have missing: "find (\<lambda>i. p_name i = ''eggs'') (pantry larderState) = None"
    by (simp add: stored onion_def tomato_def)
  have absent: "u_quantity newExpiry = KeyAbsent"
    by (simp add: newExpiry_def noUpdates_def)
  have onionQuantity: "overlaidQuantity (pantry larderState) ''onion'' newQuantity = Some ''3''"
    by (simp add: overlaidQuantity_def newQuantity_def noUpdates_def)
  have onionExpiry: "overlaidExpiry (pantry larderState) ''onion'' newQuantity = None"
    by (simp add: stored overlaidExpiry_def newQuantity_def noUpdates_def onion_def)
  have tomatoQuantity: "overlaidQuantity (pantry larderState) ''tomato'' newQuantity = Some ''3''"
    by (simp add: overlaidQuantity_def newQuantity_def noUpdates_def)
  have tomatoExpiry:
    "overlaidExpiry (pantry larderState) ''tomato'' newQuantity = Some ''2024-05-01''"
    by (simp add: stored overlaidExpiry_def newQuantity_def noUpdates_def onion_def tomato_def)
  have eggsExpiry: "overlaidExpiry (pantry larderState) ''eggs'' newExpiry = Some ''2024-06-01''"
    by (simp add: overlaidExpiry_def newExpiry_def noUpdates_def)
  have stamps:
    "exampleToISOString ''2024-05-01'' = Inr ''2024-05-01T00:00:00.000Z'' \<and>
     exampleToISOString ''2024-06-01'' = Inr ''2024-06-01T00:00:00.000Z''"
    by (simp add: exampleToISOString_def)
  note onionFacts =
    pantry_update_payload_overlays_quantity_and_expiry
      [of exampleToISOString larderState "''onion''" newQuantity "Inr confirmedTomato"]
  note tomatoFacts =
    pantry_update_payload_overlays_quantity_and_expiry
      [of exampleToISOString larderState "''tomato''" newQuantity "Inr confirmedTomato"]
  note eggsFacts =
    pantry_update_payload_overlays_quantity_and_expiry
      [of exampleToISOString larderState "''eggs''" newExpiry "Inr confirmedTomato"]
  from onionFacts have onionPayload:
    "updatePayload exampleToISOString (pantry larderState) ''onion'' newQuantity =
       Inr \<lparr>pi_name = ''onion'', pi_quantity = Some ''3'', pi_expiry_date = ExpiryNull\<rparr>"
    by (simp add: onionQuantity onionExpiry)
  from onionFacts have onionSent:
    "apiCalls (snd (updatePantryItem exampleToISOString ''onion'' newQuantity
        (Inr confirmedTomato) larderState)) =
       [GetSavedRecipes, GetPantry,
        UpsertPantryItem \<lparr>pi_name = ''onion'', pi_quantity = Some ''3'',
          pi_expiry_date = ExpiryNull\<rparr>]"
    by (simp add: onionPayload calls)
  from tomatoFacts have tomatoPayload:
    "updatePayload exampleToISOString (pantry larderState) ''tomato'' newQuantity =
       Inr \<lparr>pi_name = ''tomato'', pi_quantity = Some ''3'',
            pi_expiry_date = ExpiryString ''2024-05-01T00:00:00.000Z''\<rparr>"
    by (simp add: tomatoQuantity tomatoExpiry stamps)
  from eggsFacts missing absent have eggsQuantity:
    "overlaidQuantity (pantry larderState) ''eggs'' newExpiry = None"
    by blast
  from eggsFacts have eggsPayload:
    "updatePayload exampleToISOString (pantry larderState) ''eggs'' newExpiry =
       Inr \<lparr>pi_name = ''eggs'', pi_quantity = None,
            pi_expiry_date = ExpiryString ''2024-06-01T00:00:00.000Z''\<rparr>"
    by (simp add: eggsQuantity eggsExpiry stamps)
  from onionPayload onionSent tomatoPayload missing absent eggsPayload
  show ?thesis by blast
qed

section \<open>Errors of the remote store client\<close>

lemma request_surfaces_detail:
  "request stringOf nullReadMessage
     (FetchResolves False (Inr (JObject [(''detail'', JString message)]))) =
     Inl (ErrorInstance (if message = [] then ''Request failed'' else message))"
  by (simp add: request_def catchBlock_def)

lemma request_without_detail:
  "map_of (rev members) ''detail'' = None \<Longrightarrow>
   request stringOf nullReadMessage (FetchResolves False (Inr (JObject members))) =
     Inl (ErrorInstance ''Request failed'')"
  by (simp add: request_def catchBlock_def)

lemma request_unparsable_error_body:
  "request stringOf nullReadMessage (FetchResolves False (Inl (ErrorInstance message))) =
     Inl (ErrorInstance message)"
  by (simp add: request_def catchBlock_def)

lemma request_non_Error_rejection:
  "request stringOf nullReadMessage (FetchRejects NonError) =
     Inl (ErrorInstance ''Network error'')"
  by (simp add: request_def catchBlock_def)

text \<open>
  C9. A non-success response whose body is an object with a text under \<open>detail\<close> fails
  with that text, and with "Request failed" when there is none (the lemmas above). But
  when no response is obtained, \<open>fetch\<close> rejects with a \<open>TypeError\<close>, which is an instance
  of \<open>Error\<close>: the \<open>catch\<close> block throws it on as it is, and the message of the failure is
  the one \<open>fetch\<close> gave, not "Network error".
\<close>

theorem request_rethrows_fetch_rejection:
  "request stringOf nullReadMessage (FetchRejects (ErrorInstance ''Failed to fetch'')) =
     Inl (ErrorInstance ''Failed to fetch'') \<and>
   request stringOf nullReadMessage (FetchRejects (ErrorInstance ''Failed to fetch'')) \<noteq>
     Inl (ErrorInstance ''Network error'')"
  by (simp add: request_def catchBlock_def)

end
